theory Spec2Isabelle
  imports Main
begin

section \<open>Data model\<close>

text \<open>
  The rows of the three tables of the persistent store and the objects the manager
  class of \<^verbatim>\<open>utils/whatsappManager.js\<close> holds in memory. JavaScript objects become
  records; a property that an object literal of the source may leave out is an
  \<open>option\<close>. The wall-clock properties \<^verbatim>\<open>created_at\<close> and \<^verbatim>\<open>updated_at\<close>
  (\<^verbatim>\<open>new Date().toISOString()\<close>) are left out of every record.
\<close>

datatype direction = Incoming | Outgoing | Webhook | Webhook_incoming

datatype log_status = Success | Failed

record media =
  mimetype :: string
  data :: string
  filename :: "string option"

record log_entry =
  account_id :: string
  direction :: direction
  status :: "log_status option"
  message_id :: "string option"
  sender :: "string option"
  recipient :: "string option"
  message :: "string option"
  timestamp :: "nat option"
  msg_type :: "string option"
  chat_id :: "string option"
  is_group :: "bool option"
  group_name :: "string option"
  media :: "media option"
  webhook_id :: "string option"
  webhook_url :: "string option"
  response_status :: "nat option"
  error_message :: "string option"

record account =
  acc_id :: string
  acc_name :: string
  acc_status :: string
  acc_error_message :: "string option"

record webhook =
  wh_id :: string
  wh_account_id :: string
  wh_url :: string
  wh_secret :: "string option"
  wh_is_active :: bool

text \<open>The properties of an account row that \<^verbatim>\<open>db.updateAccount\<close> is asked to overwrite.\<close>

record account_updates =
  upd_status :: "string option"
  upd_error_message :: "string option"

text \<open>
  A live transport client as far as \<^verbatim>\<open>sendMessage\<close> inspects it: \<^verbatim>\<open>pupPage\<close> is
  \<open>None\<close> when the client has no page, and otherwise holds the page's \<^verbatim>\<open>_closed\<close>
  flag.
\<close>

record client =
  pupPage :: "bool option"

text \<open>What the transport's \<^verbatim>\<open>client.sendMessage\<close> resolves to.\<close>

record send_result =
  result_id :: string
  result_from :: string
  result_to :: string
  result_timestamp :: nat

text \<open>
  An inbound message event. \<^verbatim>\<open>getChat\<close> and \<^verbatim>\<open>downloadMedia\<close> are asynchronous calls
  on the message object; the record holds what each of them settles to (\<open>Inl\<close> the
  message of the error it rejects with, or of the error that reading the properties of an
  undefined result throws).
\<close>

record chat =
  chat_serialized :: string
  isGroup :: bool
  chat_name :: string

record wa_message =
  id_serialized :: string
  msg_from :: string
  msg_to :: string
  body :: string
  msg_timestamp :: nat
  wa_type :: string
  hasMedia :: bool
  getChat :: "string + chat"
  downloadMedia :: "string + media"

text \<open>
  The errors the manager throws or receives. \<open>error_text\<close> is the \<^verbatim>\<open>message\<close>
  property of the JavaScript error object, which the catch blocks copy into log entries.
\<close>

datatype error =
    SessionNotFound
  | SessionNotReady string
  | PageUnavailable
  | TransportError string
  | DeliveryError string
  | PersistenceError string

fun error_text :: "error \<Rightarrow> string" where
  "error_text SessionNotFound = ''WhatsApp client not found for this account''"
| "error_text (SessionNotReady st) = ''WhatsApp client is not ready. Current status: '' @ st"
| "error_text PageUnavailable = ''WhatsApp client page is closed or not available''"
| "error_text (TransportError m) = m"
| "error_text (DeliveryError m) = m"
| "error_text (PersistenceError m) = m"

section \<open>The world outside the manager\<close>

text \<open>
  Every call to a collaborator (the store, a subscriber, the transport library) is
  recorded, in order, whether or not it succeeds; \<open>Client_new\<close> is the construction
  of a transport client with its authentication strategy.
\<close>

datatype call =
    Insert_log log_entry
  | Update_account string account_updates
  | Select_accounts
  | Select_webhooks string
  | Select_logs string
  | Http_post string log_entry string string
  | Client_new string
  | Client_initialize string
  | Client_send string string string

text \<open>
  How the collaborators answer. For the store, \<open>Some m\<close> is the error Supabase returns
  (the helpers of the database module throw it); \<^verbatim>\<open>axios.post\<close> answers with the
  response status or rejects (time-out, network error, status outside 2xx);
  the constructor of the transport client returns a fresh client or throws (the
  authentication strategy refuses a client id with characters outside letters, digits,
  underscore and hyphen); \<^verbatim>\<open>client.initialize\<close> resolves with the client as it then is,
  or rejects.
\<close>

record env =
  insert_error :: "log_entry \<Rightarrow> string option"
  update_error :: "string \<Rightarrow> account_updates \<Rightarrow> string option"
  select_accounts_error :: "string option"
  select_webhooks_error :: "string \<Rightarrow> string option"
  select_logs_error :: "string \<Rightarrow> string option"
  http_post :: "string \<Rightarrow> log_entry \<Rightarrow> string \<Rightarrow> string \<Rightarrow> string + nat"
  client_new :: "string \<Rightarrow> string + client"
  client_initialize :: "string \<Rightarrow> string + client"
  client_send :: "string \<Rightarrow> string \<Rightarrow> string \<Rightarrow> string + send_result"

text \<open>
  The three tables (each in the order its query returns the rows), the two maps of the
  manager that the modelled methods use (\<^verbatim>\<open>this.clients\<close>, \<^verbatim>\<open>this.accountStatus\<close>) and
  the calls issued so far. A row is stored as it was inserted.
\<close>

record world =
  accounts :: "account list"
  webhooks :: "webhook list"
  message_logs :: "log_entry list"
  clients :: "string \<rightharpoonup> client"
  accountStatus :: "string \<rightharpoonup> string"
  calls :: "call list"

section \<open>Database helpers\<close>

definition logMessage :: "env \<Rightarrow> log_entry \<Rightarrow> world \<Rightarrow> (error + unit) \<times> world" where
  "logMessage env messageData w =
     (let w1 = w\<lparr>calls := calls w @ [Insert_log messageData]\<rparr>
      in case insert_error env messageData of
           Some m \<Rightarrow> (Inl (PersistenceError m), w1)
         | None \<Rightarrow> (Inr (), w1\<lparr>message_logs := message_logs w1 @ [messageData]\<rparr>))"

definition apply_updates :: "account_updates \<Rightarrow> account \<Rightarrow> account" where
  "apply_updates u a =
     a\<lparr>acc_status := (case upd_status u of None \<Rightarrow> acc_status a | Some s \<Rightarrow> s),
       acc_error_message :=
         (case upd_error_message u of None \<Rightarrow> acc_error_message a | Some m \<Rightarrow> Some m)\<rparr>"

definition updateAccount ::
  "env \<Rightarrow> string \<Rightarrow> account_updates \<Rightarrow> world \<Rightarrow> (error + unit) \<times> world" where
  "updateAccount env ident updates w =
     (let w1 = w\<lparr>calls := calls w @ [Update_account ident updates]\<rparr>
      in case update_error env ident updates of
           Some m \<Rightarrow> (Inl (PersistenceError m), w1)
         | None \<Rightarrow>
             (Inr (),
              w1\<lparr>accounts :=
                   map (\<lambda>a. if acc_id a = ident then apply_updates updates a else a)
                     (accounts w1)\<rparr>))"

definition getAccounts :: "env \<Rightarrow> world \<Rightarrow> (error + account list) \<times> world" where
  "getAccounts env w =
     (let w1 = w\<lparr>calls := calls w @ [Select_accounts]\<rparr>
      in case select_accounts_error env of
           Some m \<Rightarrow> (Inl (PersistenceError m), w1)
         | None \<Rightarrow> (Inr (accounts w1), w1))"

definition getWebhooks :: "env \<Rightarrow> string \<Rightarrow> world \<Rightarrow> (error + webhook list) \<times> world" where
  "getWebhooks env accountId w =
     (let w1 = w\<lparr>calls := calls w @ [Select_webhooks accountId]\<rparr>
      in case select_webhooks_error env accountId of
           Some m \<Rightarrow> (Inl (PersistenceError m), w1)
         | None \<Rightarrow> (Inr (filter (\<lambda>h. wh_account_id h = accountId) (webhooks w1)), w1))"

record stats =
  total :: nat
  incoming :: nat
  outgoing :: nat
  success :: nat
  failed :: nat

definition stats_of :: "log_entry list \<Rightarrow> stats" where
  "stats_of rows =
     \<lparr>total = length rows,
      incoming = length (filter (\<lambda>m. direction m = Incoming) rows),
      outgoing = length (filter (\<lambda>m. direction m = Outgoing) rows),
      success = length (filter (\<lambda>m. status m = Some Success) rows),
      failed = length (filter (\<lambda>m. status m = Some Failed) rows)\<rparr>"

definition getMessageStats :: "env \<Rightarrow> string \<Rightarrow> world \<Rightarrow> (error + stats) \<times> world" where
  "getMessageStats env accountId w =
     (let w1 = w\<lparr>calls := calls w @ [Select_logs accountId]\<rparr>
      in case select_logs_error env accountId of
           Some m \<Rightarrow> (Inl (PersistenceError m), w1)
         | None \<Rightarrow>
             (Inr (stats_of (filter (\<lambda>m. account_id m = accountId) (message_logs w1))), w1))"

section \<open>Log entries the manager writes\<close>

definition blank_entry :: "string \<Rightarrow> direction \<Rightarrow> log_entry" where
  "blank_entry accountId d =
     \<lparr>account_id = accountId, direction = d, status = None, message_id = None,
      sender = None, recipient = None, message = None, timestamp = None, msg_type = None,
      chat_id = None, is_group = None, group_name = None, media = None,
      webhook_id = None, webhook_url = None, response_status = None,
      error_message = None\<rparr>"

definition webhook_success_entry :: "string \<Rightarrow> webhook \<Rightarrow> nat \<Rightarrow> log_entry" where
  "webhook_success_entry accountId h st =
     (blank_entry accountId Webhook)
       \<lparr>status := Some Success, webhook_id := Some (wh_id h),
        webhook_url := Some (wh_url h), response_status := Some st\<rparr>"

definition webhook_failed_entry :: "string \<Rightarrow> webhook \<Rightarrow> string \<Rightarrow> log_entry" where
  "webhook_failed_entry accountId h msg =
     (blank_entry accountId Webhook)
       \<lparr>status := Some Failed, webhook_id := Some (wh_id h),
        webhook_url := Some (wh_url h), error_message := Some msg\<rparr>"

definition incoming_entry :: "string \<Rightarrow> wa_message \<Rightarrow> chat \<Rightarrow> log_entry" where
  "incoming_entry accountId m c =
     (blank_entry accountId Incoming)
       \<lparr>message_id := Some (id_serialized m), sender := Some (msg_from m),
        recipient := Some (msg_to m), message := Some (body m),
        timestamp := Some (msg_timestamp m), msg_type := Some (wa_type m),
        chat_id := Some (chat_serialized c), is_group := Some (isGroup c),
        group_name := (if isGroup c then Some (chat_name c) else None)\<rparr>"

definition incoming_failed_entry :: "string \<Rightarrow> string \<Rightarrow> log_entry" where
  "incoming_failed_entry accountId msg =
     (blank_entry accountId Incoming)\<lparr>status := Some Failed, error_message := Some msg\<rparr>"

definition outgoing_success_entry :: "string \<Rightarrow> string \<Rightarrow> send_result \<Rightarrow> log_entry" where
  "outgoing_success_entry accountId text res =
     (blank_entry accountId Outgoing)
       \<lparr>status := Some Success, message_id := Some (result_id res),
        sender := Some (result_from res), recipient := Some (result_to res),
        message := Some text, timestamp := Some (result_timestamp res),
        msg_type := Some ''text''\<rparr>"

definition outgoing_failed_entry :: "string \<Rightarrow> string \<Rightarrow> string \<Rightarrow> string \<Rightarrow> log_entry" where
  "outgoing_failed_entry accountId number text msg =
     (blank_entry accountId Outgoing)
       \<lparr>status := Some Failed, recipient := Some number, message := Some text,
        error_message := Some msg\<rparr>"

section \<open>Webhook dispatch\<close>

text \<open>
  The body of the loop of \<^verbatim>\<open>sendToWebhooks\<close> for one active webhook: the inner
  \<^verbatim>\<open>try\<close> posts and logs the success; the inner \<^verbatim>\<open>catch\<close> logs the failure, and an
  error of that last write leaves the loop.
\<close>

definition secret_header :: "webhook \<Rightarrow> string" where
  "secret_header h = (case wh_secret h of None \<Rightarrow> [] | Some s \<Rightarrow> s)"

definition deliver ::
  "env \<Rightarrow> string \<Rightarrow> log_entry \<Rightarrow> webhook \<Rightarrow> world \<Rightarrow> (error + unit) \<times> world" where
  "deliver env accountId messageData h w =
     (let w1 = w\<lparr>calls := calls w @
                   [Http_post (wh_url h) messageData (secret_header h) accountId]\<rparr>;
          attempt =
            (case http_post env (wh_url h) messageData (secret_header h) accountId of
               Inl msg \<Rightarrow> (Inl (DeliveryError msg), w1)
             | Inr st \<Rightarrow> logMessage env (webhook_success_entry accountId h st) w1)
      in case fst attempt of
           Inr u \<Rightarrow> (Inr (), snd attempt)
         | Inl err \<Rightarrow>
             logMessage env (webhook_failed_entry accountId h (error_text err)) (snd attempt))"

fun sendToWebhooks_loop ::
  "env \<Rightarrow> string \<Rightarrow> log_entry \<Rightarrow> webhook list \<Rightarrow> world \<Rightarrow> (error + unit) \<times> world" where
  "sendToWebhooks_loop env accountId messageData [] w = (Inr (), w)"
| "sendToWebhooks_loop env accountId messageData (h # hs) w =
     (if \<not> wh_is_active h then sendToWebhooks_loop env accountId messageData hs w
      else case deliver env accountId messageData h w of
             (Inl err, w') \<Rightarrow> (Inl err, w')
           | (Inr u, w') \<Rightarrow> sendToWebhooks_loop env accountId messageData hs w')"

text \<open>The outer \<^verbatim>\<open>catch\<close> only prints the error: \<^verbatim>\<open>sendToWebhooks\<close> never throws.\<close>

definition sendToWebhooks :: "env \<Rightarrow> string \<Rightarrow> log_entry \<Rightarrow> world \<Rightarrow> world" where
  "sendToWebhooks env accountId messageData w =
     (case getWebhooks env accountId w of
        (Inl err, w1) \<Rightarrow> w1
      | (Inr hs, w1) \<Rightarrow> snd (sendToWebhooks_loop env accountId messageData hs w1))"

section \<open>Ingestion\<close>

text \<open>
  The first part of the \<^verbatim>\<open>try\<close> block of \<^verbatim>\<open>handleIncomingMessage\<close>: the message
  data is built from the event, with the media when the event has one.
\<close>

definition build_messageData :: "string \<Rightarrow> wa_message \<Rightarrow> error + log_entry" where
  "build_messageData accountId m =
     (case getChat m of
        Inl msg \<Rightarrow> Inl (TransportError msg)
      | Inr c \<Rightarrow>
          (let messageData = incoming_entry accountId m c
           in if hasMedia m
              then (case downloadMedia m of
                      Inl msg \<Rightarrow> Inl (TransportError msg)
                    | Inr md \<Rightarrow> Inr (messageData\<lparr>media := Some md\<rparr>))
              else Inr messageData))"

text \<open>
  The unused \<^verbatim>\<open>client\<close> parameter is dropped. An error of the write in the
  \<^verbatim>\<open>catch\<close> block is thrown to the caller.
\<close>

definition handleIncomingMessage ::
  "env \<Rightarrow> string \<Rightarrow> wa_message \<Rightarrow> world \<Rightarrow> (error + unit) \<times> world" where
  "handleIncomingMessage env accountId m w =
     (let attempt =
            (case build_messageData accountId m of
               Inl err \<Rightarrow> (Inl err, w)
             | Inr messageData \<Rightarrow>
                 (case logMessage env messageData w of
                    (Inl err, w1) \<Rightarrow> (Inl err, w1)
                  | (Inr u, w1) \<Rightarrow> (Inr (), sendToWebhooks env accountId messageData w1)))
      in case fst attempt of
           Inr u \<Rightarrow> (Inr (), snd attempt)
         | Inl err \<Rightarrow>
             logMessage env (incoming_failed_entry accountId (error_text err)) (snd attempt))"

section \<open>Outbound send\<close>

text \<open>
  \<^verbatim>\<open>formatPhoneNumber\<close>: the regular expression \<^verbatim>\<open>/[^\d+]/g\<close> deletes every character
  outside the class of the ten ASCII digits and the plus sign, so every character beyond
  ASCII goes, whatever its encoding.
\<close>

definition is_digit :: "char \<Rightarrow> bool" where
  "is_digit c = (c \<in> set ''0123456789'')"

definition kept :: "char \<Rightarrow> bool" where
  "kept c = (is_digit c \<or> c = CHR ''+'')"

definition startsWith_plus :: "string \<Rightarrow> bool" where
  "startsWith_plus s = (case s of [] \<Rightarrow> False | c # cs \<Rightarrow> c = CHR ''+'')"

definition formatPhoneNumber :: "string \<Rightarrow> string" where
  "formatPhoneNumber number =
     (let cleaned = filter kept number;
          cleaned = (if \<not> startsWith_plus cleaned then ''+91'' @ cleaned else cleaned)
      in cleaned @ ''@c.us'')"

text \<open>The \<^verbatim>\<open>try\<close> block of \<^verbatim>\<open>sendMessage\<close>.\<close>

definition sendMessage_try ::
  "env \<Rightarrow> string \<Rightarrow> string \<Rightarrow> string \<Rightarrow> world \<Rightarrow> (error + string \<times> nat) \<times> world" where
  "sendMessage_try env accountId number text w =
     (case clients w accountId of
        None \<Rightarrow> (Inl SessionNotFound, w)
      | Some c \<Rightarrow>
          if accountStatus w accountId \<noteq> Some ''ready''
          then (Inl (SessionNotReady
                      (case accountStatus w accountId of
                         None \<Rightarrow> ''undefined'' | Some st \<Rightarrow> st)), w)
          else if (case pupPage c of None \<Rightarrow> True | Some closed \<Rightarrow> closed)
          then (Inl PageUnavailable, w)
          else
            (let formattedNumber = formatPhoneNumber number;
                 w1 = w\<lparr>calls := calls w @ [Client_send accountId formattedNumber text]\<rparr>
             in case client_send env accountId formattedNumber text of
                  Inl msg \<Rightarrow> (Inl (TransportError msg), w1)
                | Inr res \<Rightarrow>
                    (case logMessage env (outgoing_success_entry accountId text res) w1 of
                       (Inl err, w2) \<Rightarrow> (Inl err, w2)
                     | (Inr u, w2) \<Rightarrow> (Inr (result_id res, result_timestamp res), w2))))"

text \<open>
  The \<^verbatim>\<open>catch\<close> block logs the failure and rethrows; when that write fails, its
  error is the one the caller gets.
\<close>

definition sendMessage ::
  "env \<Rightarrow> string \<Rightarrow> string \<Rightarrow> string \<Rightarrow> world \<Rightarrow> (error + string \<times> nat) \<times> world" where
  "sendMessage env accountId number text w =
     (case sendMessage_try env accountId number text w of
        (Inr res, w1) \<Rightarrow> (Inr res, w1)
      | (Inl err, w1) \<Rightarrow>
          (case logMessage env
                  (outgoing_failed_entry accountId number text (error_text err)) w1 of
             (Inl err2, w2) \<Rightarrow> (Inl err2, w2)
           | (Inr u, w2) \<Rightarrow> (Inl err, w2)))"

section \<open>Reconnection at start\<close>

text \<open>
  \<^verbatim>\<open>reconnectAccount\<close>: inside the \<^verbatim>\<open>try\<close> the client is constructed, then
  registered and the cached status set, then the transport is initialised; an error of
  any of these steps reaches the \<^verbatim>\<open>catch\<close>, which asks the store to mark the account
  and then sets the cached status. When the construction throws, nothing was registered.
  Events the transport emits later are outside this step.
\<close>

definition reconnectAccount :: "env \<Rightarrow> account \<Rightarrow> world \<Rightarrow> (error + unit) \<times> world" where
  "reconnectAccount env a w =
     (let w0 = w\<lparr>calls := calls w @ [Client_new (acc_id a)]\<rparr>;
          attempt =
            (case client_new env (acc_id a) of
               Inl msg \<Rightarrow> (Inl (TransportError msg), w0)
             | Inr c0 \<Rightarrow>
                 (let w1 = w0\<lparr>clients := (clients w0)(acc_id a \<mapsto> c0),
                             accountStatus := (accountStatus w0)(acc_id a \<mapsto> ''initializing''),
                             calls := calls w0 @ [Client_initialize (acc_id a)]\<rparr>
                  in case client_initialize env (acc_id a) of
                       Inl msg \<Rightarrow> (Inl (TransportError msg), w1)
                     | Inr c \<Rightarrow> (Inr (), w1\<lparr>clients := (clients w1)(acc_id a \<mapsto> c)\<rparr>)))
      in case fst attempt of
           Inr u \<Rightarrow> (Inr (), snd attempt)
         | Inl err \<Rightarrow>
             (case updateAccount env (acc_id a)
                     \<lparr>upd_status = Some ''disconnected'', upd_error_message = None\<rparr>
                     (snd attempt) of
                (Inl err2, w2) \<Rightarrow> (Inl err2, w2)
              | (Inr u, w2) \<Rightarrow>
                  (Inr (),
                   w2\<lparr>accountStatus := (accountStatus w2)(acc_id a \<mapsto> ''disconnected'')\<rparr>)))"

definition reconnectable :: "account \<Rightarrow> bool" where
  "reconnectable a = (acc_status a = ''ready'' \<or> acc_status a = ''qr_ready'')"

fun initializeExistingAccounts_loop ::
  "env \<Rightarrow> account list \<Rightarrow> world \<Rightarrow> (error + unit) \<times> world" where
  "initializeExistingAccounts_loop env [] w = (Inr (), w)"
| "initializeExistingAccounts_loop env (a # as) w =
     (if reconnectable a
      then case reconnectAccount env a w of
             (Inl err, w') \<Rightarrow> (Inl err, w')
           | (Inr u, w') \<Rightarrow> initializeExistingAccounts_loop env as w'
      else initializeExistingAccounts_loop env as w)"

definition initializeExistingAccounts :: "env \<Rightarrow> world \<Rightarrow> world" where
  "initializeExistingAccounts env w =
     (case getAccounts env w of
        (Inl err, w1) \<Rightarrow> w1
      | (Inr as, w1) \<Rightarrow> snd (initializeExistingAccounts_loop env as w1))"

section \<open>Notions used to state the properties\<close>

text \<open>The part of a formatted address in front of the five characters of the suffix.\<close>

definition address_part :: "string \<Rightarrow> string" where
  "address_part a = take (length a - length ''@c.us'') a"

text \<open>
  The entry that ends up recorded for an active webhook when the write of a failure
  entry is accepted: the success entry when the post was answered and that entry was
  stored, and otherwise the failure entry with the message of whatever went wrong.
\<close>

definition recorded_outcome :: "env \<Rightarrow> string \<Rightarrow> log_entry \<Rightarrow> webhook \<Rightarrow> log_entry" where
  "recorded_outcome env accountId messageData h =
     (case http_post env (wh_url h) messageData (secret_header h) accountId of
        Inl msg \<Rightarrow> webhook_failed_entry accountId h msg
      | Inr st \<Rightarrow>
          (case insert_error env (webhook_success_entry accountId h st) of
             None \<Rightarrow> webhook_success_entry accountId h st
           | Some m \<Rightarrow> webhook_failed_entry accountId h m))"

definition active_webhooks :: "string \<Rightarrow> world \<Rightarrow> webhook list" where
  "active_webhooks accountId w =
     filter wh_is_active (filter (\<lambda>h. wh_account_id h = accountId) (webhooks w))"

definition inactive_webhooks :: "string \<Rightarrow> world \<Rightarrow> webhook list" where
  "inactive_webhooks accountId w =
     filter (\<lambda>h. \<not> wh_is_active h) (filter (\<lambda>h. wh_account_id h = accountId) (webhooks w))"

text \<open>Projections of a list of entries and of a list of calls.\<close>

definition entries_of_webhook :: "string \<Rightarrow> log_entry list \<Rightarrow> log_entry list" where
  "entries_of_webhook ident rows = filter (\<lambda>e. webhook_id e = Some ident) rows"

definition webhook_entries :: "log_entry list \<Rightarrow> log_entry list" where
  "webhook_entries rows = filter (\<lambda>e. direction e = Webhook) rows"

definition successes :: "log_entry list \<Rightarrow> log_entry list" where
  "successes rows = filter (\<lambda>e. status e = Some Success) rows"


fun sends :: "call list \<Rightarrow> call list" where
  "sends [] = []"
| "sends (Client_send a n t # cs) = Client_send a n t # sends cs"
| "sends (c # cs) = sends cs"

fun dispatch_calls :: "call list \<Rightarrow> call list" where
  "dispatch_calls [] = []"
| "dispatch_calls (Select_webhooks a # cs) = Select_webhooks a # dispatch_calls cs"
| "dispatch_calls (Http_post u d s a # cs) = Http_post u d s a # dispatch_calls cs"
| "dispatch_calls (c # cs) = dispatch_calls cs"







section \<open>Example collaborators and stores\<close>

definition env_up :: env where
  "env_up =
     \<lparr>insert_error = (\<lambda>e. None),
      update_error = (\<lambda>i u. None),
      select_accounts_error = None,
      select_webhooks_error = (\<lambda>a. None),
      select_logs_error = (\<lambda>a. None),
      http_post = (\<lambda>url d s a. Inr 200),
      client_new = (\<lambda>i. Inr \<lparr>pupPage = None\<rparr>),
      client_initialize = (\<lambda>i. Inr \<lparr>pupPage = Some False\<rparr>),
      client_send = (\<lambda>a n t. Inr \<lparr>result_id = ''m1'', result_from = a, result_to = n,
                                    result_timestamp = 1\<rparr>)\<rparr>"

text \<open>A store that refuses every row whose status is \<^verbatim>\<open>failed\<close>.\<close>

definition env_no_failed_rows :: env where
  "env_no_failed_rows =
     env_up\<lparr>insert_error :=
              (\<lambda>e. if status e = Some Failed then Some ''insert refused'' else None)\<rparr>"

text \<open>The same, with the subscriber at the first address timing out.\<close>

definition env_first_times_out :: env where
  "env_first_times_out =
     env_no_failed_rows\<lparr>http_post :=
       (\<lambda>url d s a. if url = ''https://one.example/hook''
                     then Inl ''timeout of 10000ms exceeded'' else Inr 200)\<rparr>"

text \<open>Subscribers that answer, except the first, over a store that accepts every row.\<close>

definition env_first_fails :: env where
  "env_first_fails =
     env_up\<lparr>http_post :=
       (\<lambda>url d s a. if url = ''https://one.example/hook''
                     then Inl ''timeout of 10000ms exceeded'' else Inr 200)\<rparr>"

text \<open>A store that is down, and a transport that cannot start any client.\<close>

definition env_store_down :: env where
  "env_store_down =
     env_up\<lparr>insert_error := (\<lambda>e. Some ''store unavailable''),
            update_error := (\<lambda>i u. Some ''store unavailable'')\<rparr>"

text \<open>A store whose listings of accounts and of webhooks fail.\<close>

definition env_no_listing :: env where
  "env_no_listing =
     env_up\<lparr>select_accounts_error := Some ''store unavailable'',
            select_webhooks_error := (\<lambda>a. Some ''store unavailable'')\<rparr>"

definition env_no_transport :: env where
  "env_no_transport = env_up\<lparr>client_initialize := (\<lambda>i. Inl ''browser failed to launch'')\<rparr>"

definition env_nothing_works :: env where
  "env_nothing_works =
     env_store_down\<lparr>client_initialize := (\<lambda>i. Inl ''browser failed to launch'')\<rparr>"

text \<open>A store that refuses the success entry of the first webhook and nothing else.\<close>

definition env_no_first_success :: env where
  "env_no_first_success =
     env_up\<lparr>insert_error :=
       (\<lambda>e. if webhook_id e = Some ''w1'' \<and> status e = Some Success
            then Some ''insert refused'' else None)\<rparr>"

text \<open>A transport library that refuses a client id with a dot in it.\<close>

definition env_strict_ids :: env where
  "env_strict_ids =
     env_up\<lparr>client_new :=
       (\<lambda>i. if CHR ''.'' \<in> set i
            then Inl ''Invalid clientId. Only alphanumeric characters, underscores and hyphens are allowed.''
            else Inr \<lparr>pupPage = None\<rparr>)\<rparr>"

definition env_strict_ids_store_down :: env where
  "env_strict_ids_store_down =
     env_strict_ids\<lparr>insert_error := (\<lambda>e. Some ''store unavailable''),
                    update_error := (\<lambda>i u. Some ''store unavailable'')\<rparr>"

definition hook1 :: webhook where
  "hook1 = \<lparr>wh_id = ''w1'', wh_account_id = ''acc'', wh_url = ''https://one.example/hook'',
            wh_secret = Some ''s1'', wh_is_active = True\<rparr>"

definition hook2 :: webhook where
  "hook2 = \<lparr>wh_id = ''w2'', wh_account_id = ''acc'', wh_url = ''https://two.example/hook'',
            wh_secret = None, wh_is_active = True\<rparr>"

definition hook3 :: webhook where
  "hook3 = \<lparr>wh_id = ''w3'', wh_account_id = ''acc'', wh_url = ''https://three.example/hook'',
            wh_secret = None, wh_is_active = False\<rparr>"

definition account1 :: account where
  "account1 = \<lparr>acc_id = ''acc'', acc_name = ''first'', acc_status = ''ready'',
               acc_error_message = None\<rparr>"

definition account2 :: account where
  "account2 = \<lparr>acc_id = ''acc2'', acc_name = ''second'', acc_status = ''qr_ready'',
               acc_error_message = None\<rparr>"

definition account3 :: account where
  "account3 = \<lparr>acc_id = ''acc3'', acc_name = ''third'', acc_status = ''auth_failed'',
               acc_error_message = Some ''bad session''\<rparr>"

definition account_dotted :: account where
  "account_dotted = \<lparr>acc_id = ''a.b'', acc_name = ''imported'', acc_status = ''ready'',
                     acc_error_message = None\<rparr>"

text \<open>The state at process start: filled tables, no live session.\<close>

definition world_start :: world where
  "world_start =
     \<lparr>accounts = [account1, account2, account3], webhooks = [hook1, hook2, hook3],
      message_logs = [], clients = Map.empty, accountStatus = Map.empty, calls = []\<rparr>"

text \<open>The same with an account whose id has a dot in front of the others.\<close>

definition world_imported :: world where
  "world_imported = world_start\<lparr>accounts := [account_dotted, account1, account2, account3]\<rparr>"

text \<open>The first account with a live session whose cached status is \<^verbatim>\<open>qr_ready\<close>.\<close>

definition world_scanning :: world where
  "world_scanning =
     world_start\<lparr>clients := [''acc'' \<mapsto> \<lparr>pupPage = Some False\<rparr>],
                 accountStatus := [''acc'' \<mapsto> ''qr_ready'']\<rparr>"

definition hi_message :: wa_message where
  "hi_message =
     \<lparr>id_serialized = ''false_15550001@c.us_A1'', msg_from = ''15550001@c.us'',
      msg_to = ''15550002@c.us'', body = ''hi'', msg_timestamp = 1700000000,
      wa_type = ''chat'', hasMedia = False,
      getChat = Inr \<lparr>chat_serialized = ''15550001@c.us'', isGroup = False, chat_name = ''Ann''\<rparr>,
      downloadMedia = Inl ''no media''\<rparr>"

definition hi_data :: log_entry where
  "hi_data =
     incoming_entry ''acc'' hi_message
       \<lparr>chat_serialized = ''15550001@c.us'', isGroup = False, chat_name = ''Ann''\<rparr>"

definition lost_message :: wa_message where
  "lost_message = hi_message\<lparr>getChat := Inl ''Evaluation failed''\<rparr>"

section \<open>Properties of the normalisation\<close>

lemma kept_suffix: "filter kept (s @ ''@c.us'') = filter kept s"
  by (simp add: kept_def is_digit_def)

lemma kept_prefix: "filter kept (''+91'' @ s) = ''+91'' @ filter kept s"
  by (simp add: kept_def is_digit_def)

lemma startsWith_plus_prefixed: "startsWith_plus (''+91'' @ s)"
  by (simp add: startsWith_plus_def)

lemma formatPhoneNumber_cases:
  "formatPhoneNumber x =
     (if startsWith_plus (filter kept x) then filter kept x else ''+91'' @ filter kept x)
     @ ''@c.us''"
  by (simp add: formatPhoneNumber_def Let_def)

lemma filter_kept_formatPhoneNumber:
  "filter kept (formatPhoneNumber x) =
     (if startsWith_plus (filter kept x) then filter kept x else ''+91'' @ filter kept x)"
proof (cases "startsWith_plus (filter kept x)")
  case True
  then show ?thesis
    by (simp only: formatPhoneNumber_cases kept_suffix if_True filter_filter) simp
next
  case False
  then show ?thesis
    by (simp only: formatPhoneNumber_cases kept_suffix kept_prefix if_False filter_filter) simp
qed

lemma startsWith_plus_filter_formatPhoneNumber:
  "startsWith_plus (filter kept (formatPhoneNumber x))"
  by (simp only: filter_kept_formatPhoneNumber startsWith_plus_prefixed split: if_split) simp

lemma address_part_formatPhoneNumber:
  "address_part (formatPhoneNumber x) =
     (if startsWith_plus (filter kept x) then filter kept x else ''+91'' @ filter kept x)"
  by (simp add: formatPhoneNumber_cases address_part_def)

text \<open>
  C4. Normalisation is idempotent: formatting an already formatted address gives the
  same address, for every input string.
\<close>

theorem formatPhoneNumber_idempotent:
  "formatPhoneNumber (formatPhoneNumber x) = formatPhoneNumber x"
proof -
  have "formatPhoneNumber (formatPhoneNumber x) = filter kept (formatPhoneNumber x) @ ''@c.us''"
    using startsWith_plus_filter_formatPhoneNumber [of x]
    by (simp only: formatPhoneNumber_cases [of "formatPhoneNumber x"] if_True)
  also have "\<dots> = formatPhoneNumber x"
    by (simp only: filter_kept_formatPhoneNumber) (simp only: formatPhoneNumber_cases [of x])
  finally show ?thesis .
qed

section \<open>Evaluation of the examples\<close>

lemmas fixture_defs = env_up_def env_no_listing_def env_no_first_success_def env_strict_ids_def
  env_strict_ids_store_down_def account_dotted_def world_imported_def env_no_failed_rows_def env_first_times_out_def env_first_fails_def
  env_store_down_def env_no_transport_def env_nothing_works_def hook1_def hook2_def hook3_def
  account1_def account2_def account3_def world_start_def world_scanning_def hi_message_def
  hi_data_def lost_message_def

lemmas op_defs = logMessage_def updateAccount_def getAccounts_def getWebhooks_def
  deliver_def sendToWebhooks_def handleIncomingMessage_def build_messageData_def
  sendMessage_def sendMessage_try_def reconnectAccount_def initializeExistingAccounts_def
  secret_header_def

lemmas entry_defs = blank_entry_def webhook_success_entry_def webhook_failed_entry_def
  incoming_entry_def incoming_failed_entry_def outgoing_success_entry_def
  outgoing_failed_entry_def

section \<open>Properties of the dispatch\<close>

lemma logMessage_logs:
  "message_logs (snd (logMessage env e w)) =
     message_logs w @ (case insert_error env e of None \<Rightarrow> [e] | Some m \<Rightarrow> [])"
  by (simp add: logMessage_def Let_def split: option.split)

lemma logMessage_fst:
  "fst (logMessage env e w) =
     (case insert_error env e of None \<Rightarrow> Inr () | Some m \<Rightarrow> Inl (PersistenceError m))"
  by (simp add: logMessage_def Let_def split: option.split)

lemma logMessage_calls: "calls (snd (logMessage env e w)) = calls w @ [Insert_log e]"
  by (simp add: logMessage_def Let_def split: option.split)

lemma deliver_accepted:
  assumes "\<forall>msg. insert_error env (webhook_failed_entry aid h msg) = None"
  shows "fst (deliver env aid md h w) = Inr ()"
    and "message_logs (snd (deliver env aid md h w)) =
           message_logs w @ [recorded_outcome env aid md h]"
  using assms
  by (simp_all add: deliver_def Let_def recorded_outcome_def logMessage_fst logMessage_logs
        split: sum.split option.split)

lemma loop_accepted:
  assumes "\<forall>h msg. insert_error env (webhook_failed_entry aid h msg) = None"
  shows "fst (sendToWebhooks_loop env aid md hs w) = Inr () \<and>
         message_logs (snd (sendToWebhooks_loop env aid md hs w)) =
           message_logs w @ map (recorded_outcome env aid md) (filter wh_is_active hs)"
proof (induction hs arbitrary: w)
  case Nil
  show ?case by simp
next
  case (Cons h hs)
  show ?case
  proof (cases "wh_is_active h")
    case False
    then show ?thesis using Cons.IH [of w] by simp
  next
    case True
    obtain r w' where d: "deliver env aid md h w = (r, w')" by (cases "deliver env aid md h w")
    have r: "r = Inr ()" using deliver_accepted(1) [of env aid h md w] assms d by simp
    have l: "message_logs w' = message_logs w @ [recorded_outcome env aid md h]"
      using deliver_accepted(2) [of env aid h md w] assms d by simp
    show ?thesis using True d r l Cons.IH [of w'] by simp
  qed
qed

lemma sendToWebhooks_accepted:
  assumes "\<forall>h msg. insert_error env (webhook_failed_entry aid h msg) = None"
      and "select_webhooks_error env aid = None"
  shows "message_logs (sendToWebhooks env aid md w) =
           message_logs w @ map (recorded_outcome env aid md) (active_webhooks aid w)"
  using assms(2) loop_accepted [OF assms(1), of md]
  by (simp add: sendToWebhooks_def getWebhooks_def active_webhooks_def)

lemma sendToWebhooks_select_failed:
  assumes "select_webhooks_error env aid = Some m"
  shows "message_logs (sendToWebhooks env aid md w) = message_logs w"
  using assms by (simp add: sendToWebhooks_def getWebhooks_def)


lemma recorded_outcome_fields:
  "account_id (recorded_outcome env aid md h) = aid"
  "direction (recorded_outcome env aid md h) = Webhook"
  "webhook_id (recorded_outcome env aid md h) = Some (wh_id h)"
  "webhook_url (recorded_outcome env aid md h) = Some (wh_url h)"
  by (simp_all add: recorded_outcome_def webhook_success_entry_def webhook_failed_entry_def
        blank_entry_def split: sum.split option.split)

lemma recorded_outcome_status:
  "status (recorded_outcome env aid md h) =
     (case http_post env (wh_url h) md (secret_header h) aid of
        Inl msg \<Rightarrow> Some Failed
      | Inr st \<Rightarrow>
          (case insert_error env (webhook_success_entry aid h st) of
             None \<Rightarrow> Some Success | Some m \<Rightarrow> Some Failed))"
  by (simp add: recorded_outcome_def webhook_success_entry_def webhook_failed_entry_def
        blank_entry_def split: sum.split option.split)

lemma webhook_entries_outcomes:
  "webhook_entries (map (recorded_outcome env aid md) hs) = map (recorded_outcome env aid md) hs"
  by (induction hs) (simp_all add: webhook_entries_def recorded_outcome_fields)

lemma entries_of_other_webhook:
  "ident \<notin> wh_id ` set hs \<Longrightarrow>
     entries_of_webhook ident (map (recorded_outcome env aid md) hs) = []"
  by (induction hs) (auto simp add: entries_of_webhook_def recorded_outcome_fields)

lemma handle_build_failed:
  "build_messageData aid m = Inl err \<Longrightarrow>
     handleIncomingMessage env aid m w =
       logMessage env (incoming_failed_entry aid (error_text err)) w"
  by (simp add: handleIncomingMessage_def)

lemma handle_persist_failed:
  "build_messageData aid m = Inr md \<Longrightarrow> insert_error env md = Some msg \<Longrightarrow>
     handleIncomingMessage env aid m w =
       logMessage env (incoming_failed_entry aid msg) (w\<lparr>calls := calls w @ [Insert_log md]\<rparr>)"
  by (simp add: handleIncomingMessage_def logMessage_def [of env md] Let_def)

lemma handle_persisted:
  "build_messageData aid m = Inr md \<Longrightarrow> insert_error env md = None \<Longrightarrow>
     handleIncomingMessage env aid m w =
       (Inr (), sendToWebhooks env aid md
                  (w\<lparr>calls := calls w @ [Insert_log md],
                     message_logs := message_logs w @ [md]\<rparr>))"
  by (simp add: handleIncomingMessage_def logMessage_def [of env md] Let_def)

text \<open>
  The write of the failure entry in the inner \<^verbatim>\<open>catch\<close> is not guarded: when the
  post to an active webhook fails and the store refuses its failure entry, the loop ends
  there with the store's error, whatever webhooks follow.
\<close>

lemma sendToWebhooks_loop_aborts:
  assumes "wh_is_active h"
      and "http_post env (wh_url h) md (secret_header h) aid = Inl msg"
      and "insert_error env (webhook_failed_entry aid h msg) = Some m"
  shows "sendToWebhooks_loop env aid md (h # hs) w =
           (Inl (PersistenceError m),
            w\<lparr>calls := calls w @
                 [Http_post (wh_url h) md (secret_header h) aid,
                  Insert_log (webhook_failed_entry aid h msg)]\<rparr>)"
  using assms by (simp add: deliver_def logMessage_def Let_def)

text \<open>
  C1. The outcome recorded for one subscriber depends on the delivery to another. Over
  a store that refuses rows with status \<^verbatim>\<open>failed\<close>, with two active webhooks, the
  second subscriber gets its success entry when the first one answers; when the first
  one times out, the refused failure entry ends the loop: the dispatch makes one post and
  one insertion, and the second subscriber is neither posted to nor logged. A refused
  success entry does not end the loop: the inner \<^verbatim>\<open>catch\<close> records a failure for
  that webhook and the next webhook is served.
\<close>

theorem webhook_failure_not_isolated:
  "wh_is_active hook1 \<and> wh_is_active hook2 \<and>
   entries_of_webhook ''w2''
     (message_logs (sendToWebhooks env_no_failed_rows ''acc'' hi_data world_start)) =
     [webhook_success_entry ''acc'' hook2 200] \<and>
   entries_of_webhook ''w2''
     (message_logs (sendToWebhooks env_first_times_out ''acc'' hi_data world_start)) = [] \<and>
   calls (sendToWebhooks env_first_times_out ''acc'' hi_data world_start) =
     [Select_webhooks ''acc'',
      Http_post ''https://one.example/hook'' hi_data ''s1'' ''acc'',
      Insert_log (webhook_failed_entry ''acc'' hook1 ''timeout of 10000ms exceeded'')] \<and>
   message_logs (sendToWebhooks env_no_first_success ''acc'' hi_data world_start) =
     [webhook_failed_entry ''acc'' hook1 ''insert refused'',
      webhook_success_entry ''acc'' hook2 200]"
  by (simp add: fixture_defs op_defs entry_defs entries_of_webhook_def)

text \<open>
  C2 as the code has it. When the listing of the webhooks succeeds and the store accepts
  every failure entry of a delivery, one dispatch appends exactly one entry for each
  active webhook of the account, in the order of the listing: an entry of direction
  \<^verbatim>\<open>webhook\<close> with the webhook's id and address and the status \<^verbatim>\<open>success\<close> or
  \<^verbatim>\<open>failed\<close>. An inactive webhook whose id no active webhook shares gets no entry.
\<close>

theorem one_entry_per_active_webhook:
  assumes "select_webhooks_error env aid = None"
      and "\<forall>h msg. insert_error env (webhook_failed_entry aid h msg) = None"
  shows "message_logs (sendToWebhooks env aid md w) =
           message_logs w @ map (recorded_outcome env aid md) (active_webhooks aid w) \<and>
         length (webhook_entries (map (recorded_outcome env aid md) (active_webhooks aid w))) =
           length (active_webhooks aid w) \<and>
         (\<forall>h. account_id (recorded_outcome env aid md h) = aid \<and>
              direction (recorded_outcome env aid md h) = Webhook \<and>
              webhook_id (recorded_outcome env aid md h) = Some (wh_id h) \<and>
              webhook_url (recorded_outcome env aid md h) = Some (wh_url h) \<and>
              (status (recorded_outcome env aid md h) = Some Success \<or>
               status (recorded_outcome env aid md h) = Some Failed)) \<and>
         (\<forall>h \<in> set (inactive_webhooks aid w).
              wh_id h \<notin> wh_id ` set (active_webhooks aid w) \<longrightarrow>
              entries_of_webhook (wh_id h)
                (map (recorded_outcome env aid md) (active_webhooks aid w)) = [])"
proof -
  have "\<And>h. status (recorded_outcome env aid md h) = Some Success \<or>
             status (recorded_outcome env aid md h) = Some Failed"
    by (simp add: recorded_outcome_status split: sum.split option.split)
  then show ?thesis
    using sendToWebhooks_accepted [OF assms(2) assms(1), of md w]
    by (simp add: webhook_entries_outcomes recorded_outcome_fields entries_of_other_webhook)
qed

theorem one_entry_per_active_webhook_witness:
  "message_logs (sendToWebhooks env_first_fails ''acc'' hi_data world_start) =
     [webhook_failed_entry ''acc'' hook1 ''timeout of 10000ms exceeded'',
      webhook_success_entry ''acc'' hook2 200] \<and>
   length (active_webhooks ''acc'' world_start) = 2 \<and>
   entries_of_webhook ''w3''
     (message_logs (sendToWebhooks env_first_fails ''acc'' hi_data world_start)) = []"
proof -
  have sel: "select_webhooks_error env_first_fails ''acc'' = None"
    by (simp add: env_first_fails_def env_up_def)
  have acc: "\<forall>h msg. insert_error env_first_fails (webhook_failed_entry ''acc'' h msg) = None"
    by (simp add: env_first_fails_def env_up_def)
  show ?thesis
    using one_entry_per_active_webhook [OF sel acc, of hi_data world_start]
    by (simp add: fixture_defs active_webhooks_def inactive_webhooks_def recorded_outcome_def
          secret_header_def entries_of_webhook_def entry_defs)
qed

text \<open>
  Without the hypothesis on the store the count fails. There are two active webhooks and
  one inactive; the first subscriber times out and the store refuses the failure entry,
  so the loop ends: the second subscriber is never posted to and the dispatch leaves no
  entry of direction \<^verbatim>\<open>webhook\<close>, although the store would have accepted a
  success entry. Nor is there any entry when the listing of the webhooks fails.
\<close>

theorem one_entry_per_active_webhook_counterexample:
  "length (active_webhooks ''acc'' world_start) = 2 \<and>
   length (inactive_webhooks ''acc'' world_start) = 1 \<and>
   select_webhooks_error env_first_times_out ''acc'' = None \<and>
   webhook_entries
     (message_logs (sendToWebhooks env_first_times_out ''acc'' hi_data world_start)) = [] \<and>
   dispatch_calls (calls (sendToWebhooks env_first_times_out ''acc'' hi_data world_start)) =
     [Select_webhooks ''acc'', Http_post ''https://one.example/hook'' hi_data ''s1'' ''acc''] \<and>
   webhook_entries
     (message_logs (sendToWebhooks env_no_listing ''acc'' hi_data world_start)) = []"
  by (simp add: fixture_defs op_defs entry_defs webhook_entries_def active_webhooks_def
        inactive_webhooks_def)

section \<open>Shape of a formatted address\<close>

lemma filter_plus_kept: "filter (\<lambda>c. c = CHR ''+'') (filter kept x) = filter (\<lambda>c. c = CHR ''+'') x"
  by (induction x) (simp_all add: kept_def)

lemma filter_digit_kept: "filter is_digit (filter kept x) = filter is_digit x"
  by (induction x) (simp_all add: kept_def)

lemma startsWith_plus_address_part: "startsWith_plus (address_part (formatPhoneNumber x))"
  by (simp only: address_part_formatPhoneNumber startsWith_plus_prefixed split: if_split) simp

text \<open>
  C5 as the code has it. The normalisation deletes every character that is neither a
  digit nor a plus sign, and keeps every plus sign wherever it stands (so all digits and
  all plus signs of the input survive, in order). When what is left does not begin with
  a plus sign, \<^verbatim>\<open>+91\<close> is put in front; then the suffix \<^verbatim>\<open>@c.us\<close> is appended.
  The part in front of the suffix always begins with a plus sign and consists of digits
  and plus signs only.
\<close>

theorem formatPhoneNumber_shape:
  "formatPhoneNumber x = address_part (formatPhoneNumber x) @ ''@c.us'' \<and>
   address_part (formatPhoneNumber x) =
     (if startsWith_plus (filter kept x) then filter kept x else ''+91'' @ filter kept x) \<and>
   startsWith_plus (address_part (formatPhoneNumber x)) \<and>
   (\<forall>c \<in> set (address_part (formatPhoneNumber x)). is_digit c \<or> c = CHR ''+'') \<and>
   filter is_digit (filter kept x) = filter is_digit x \<and>
   filter (\<lambda>c. c = CHR ''+'') (filter kept x) = filter (\<lambda>c. c = CHR ''+'') x"
proof -
  have "\<forall>c \<in> set (address_part (formatPhoneNumber x)). kept c"
    by (auto simp add: address_part_formatPhoneNumber kept_def is_digit_def)
  then have "\<forall>c \<in> set (address_part (formatPhoneNumber x)). is_digit c \<or> c = CHR ''+''"
    by (simp add: kept_def)
  moreover have "formatPhoneNumber x = address_part (formatPhoneNumber x) @ ''@c.us''"
    by (simp only: address_part_formatPhoneNumber) (simp only: formatPhoneNumber_cases)
  ultimately show ?thesis
    using address_part_formatPhoneNumber [of x] startsWith_plus_address_part [of x]
      filter_digit_kept [of x] filter_plus_kept [of x]
    by blast
qed

theorem formatPhoneNumber_shape_witness:
  "formatPhoneNumber ''(+1) 555-0101'' = ''+15550101@c.us'' \<and>
   address_part (formatPhoneNumber ''(+1) 555-0101'') = ''+15550101''"
proof -
  note shape = formatPhoneNumber_shape [of "''(+1) 555-0101''"]
  have part: "address_part (formatPhoneNumber ''(+1) 555-0101'') = ''+15550101''"
    using shape by (simp add: kept_def is_digit_def startsWith_plus_def)
  have "formatPhoneNumber ''(+1) 555-0101'' =
          address_part (formatPhoneNumber ''(+1) 555-0101'') @ ''@c.us''"
    using shape by blast
  then have "formatPhoneNumber ''(+1) 555-0101'' = ''+15550101@c.us''"
    by (simp only: part) simp
  then show ?thesis using part by simp
qed

text \<open>
  A plus sign inside the number is not removed: the part in front of the suffix can
  hold a plus sign after its first character.
\<close>

theorem formatPhoneNumber_shape_counterexample:
  "formatPhoneNumber ''12+34'' = ''+9112+34@c.us'' \<and>
   CHR ''+'' \<in> set (tl (address_part (formatPhoneNumber ''12+34'')))"
  by (simp add: formatPhoneNumber_cases address_part_def kept_def is_digit_def
        startsWith_plus_def)

section \<open>Properties of the outbound send\<close>

lemma sends_append: "sends (xs @ ys) = sends xs @ sends ys"
  by (induction xs rule: sends.induct) simp_all

lemma outgoing_failed_entry_fields:
  "account_id (outgoing_failed_entry aid number text msg) = aid"
  "direction (outgoing_failed_entry aid number text msg) = Outgoing"
  "status (outgoing_failed_entry aid number text msg) = Some Failed"
  "recipient (outgoing_failed_entry aid number text msg) = Some number"
  "message (outgoing_failed_entry aid number text msg) = Some text"
  "error_message (outgoing_failed_entry aid number text msg) = Some msg"
  by (simp_all add: outgoing_failed_entry_def blank_entry_def)

lemma sendMessage_refused:
  assumes "sendMessage_try env aid number text w = (Inl err, w)"
  shows "fst (sendMessage env aid number text w) =
           (case insert_error env (outgoing_failed_entry aid number text (error_text err)) of
              None \<Rightarrow> Inl err | Some m \<Rightarrow> Inl (PersistenceError m))"
    and "calls (snd (sendMessage env aid number text w)) =
           calls w @ [Insert_log (outgoing_failed_entry aid number text (error_text err))]"
    and "message_logs (snd (sendMessage env aid number text w)) =
           message_logs w @
           (case insert_error env (outgoing_failed_entry aid number text (error_text err)) of
              None \<Rightarrow> [outgoing_failed_entry aid number text (error_text err)]
            | Some m \<Rightarrow> [])"
  using assms
  by (simp_all add: sendMessage_def logMessage_def Let_def split: option.split)

text \<open>
  C3 as the code has it. A send for an account without a live session fails, and its
  \<^verbatim>\<open>catch\<close> block makes exactly one call to the store: the insertion of an outgoing
  entry with status \<^verbatim>\<open>failed\<close> and the message of the error. The caller gets
  \<open>SessionNotFound\<close> when the store accepts that entry, and the store's error
  otherwise. Nothing is sent on the transport and no entry with status
  \<^verbatim>\<open>success\<close> is written.
\<close>

theorem sendMessage_without_session:
  assumes "clients w aid = None"
  shows "fst (sendMessage env aid number text w) =
           (case insert_error env
                   (outgoing_failed_entry aid number text (error_text SessionNotFound)) of
              None \<Rightarrow> Inl SessionNotFound | Some m \<Rightarrow> Inl (PersistenceError m)) \<and>
         calls (snd (sendMessage env aid number text w)) =
           calls w @
           [Insert_log (outgoing_failed_entry aid number text (error_text SessionNotFound))] \<and>
         message_logs (snd (sendMessage env aid number text w)) =
           message_logs w @
           (case insert_error env
                   (outgoing_failed_entry aid number text (error_text SessionNotFound)) of
              None \<Rightarrow> [outgoing_failed_entry aid number text (error_text SessionNotFound)]
            | Some m \<Rightarrow> []) \<and>
         direction (outgoing_failed_entry aid number text (error_text SessionNotFound)) =
           Outgoing \<and>
         status (outgoing_failed_entry aid number text (error_text SessionNotFound)) =
           Some Failed \<and>
         error_message (outgoing_failed_entry aid number text (error_text SessionNotFound)) =
           Some ''WhatsApp client not found for this account'' \<and>
         sends (calls (snd (sendMessage env aid number text w))) = sends (calls w) \<and>
         successes (message_logs (snd (sendMessage env aid number text w))) =
           successes (message_logs w)"
proof -
  have t: "sendMessage_try env aid number text w = (Inl SessionNotFound, w)"
    using assms by (simp add: sendMessage_try_def)
  show ?thesis
    by (simp add: sendMessage_refused [OF t] outgoing_failed_entry_fields sends_append
          successes_def split: option.split)
qed

theorem sendMessage_without_session_witness:
  "sendMessage env_store_down ''acc'' ''9876543210'' ''hello'' world_start =
     (Inl (PersistenceError ''store unavailable''),
      world_start\<lparr>calls :=
        [Insert_log (outgoing_failed_entry ''acc'' ''9876543210'' ''hello''
                       ''WhatsApp client not found for this account'')]\<rparr>)"
proof -
  have "clients world_start ''acc'' = None" by (simp add: world_start_def)
  from sendMessage_without_session [OF this, of env_store_down "''9876543210''" "''hello''"]
  have "fst (sendMessage env_store_down ''acc'' ''9876543210'' ''hello'' world_start) =
          Inl (PersistenceError ''store unavailable'')"
    by (simp add: env_store_down_def env_up_def)
  then show ?thesis
    by (simp add: fixture_defs op_defs entry_defs)
qed

text \<open>
  The scenario of the specification: no live session, a store that works. The call
  fails with \<open>SessionNotFound\<close> and the log, empty before, holds one entry after.
  Over a store that is down the call fails with the store's error instead.
\<close>

theorem sendMessage_without_session_counterexample:
  "clients world_start ''acc'' = None \<and>
   message_logs world_start = [] \<and>
   fst (sendMessage env_up ''acc'' ''9876543210'' ''hello'' world_start) = Inl SessionNotFound \<and>
   message_logs (snd (sendMessage env_up ''acc'' ''9876543210'' ''hello'' world_start)) =
     [outgoing_failed_entry ''acc'' ''9876543210'' ''hello''
        ''WhatsApp client not found for this account''] \<and>
   fst (sendMessage env_store_down ''acc'' ''9876543210'' ''hello'' world_start) =
     Inl (PersistenceError ''store unavailable'')"
  by (simp add: fixture_defs op_defs entry_defs)

text \<open>
  C8 as the code has it. A send for an account with a live session whose cached status
  is not \<^verbatim>\<open>ready\<close> fails without any send on the transport and without any entry
  of status \<^verbatim>\<open>success\<close>; the only call is the insertion of an outgoing entry with
  status \<^verbatim>\<open>failed\<close>. The caller gets \<open>SessionNotReady\<close> when the store
  accepts that entry, and the store's error otherwise.
\<close>

theorem sendMessage_not_ready:
  assumes "clients w aid = Some c"
      and "accountStatus w aid \<noteq> Some ''ready''"
      and "st = (case accountStatus w aid of None \<Rightarrow> ''undefined'' | Some s \<Rightarrow> s)"
  shows "fst (sendMessage env aid number text w) =
           (case insert_error env
                   (outgoing_failed_entry aid number text (error_text (SessionNotReady st))) of
              None \<Rightarrow> Inl (SessionNotReady st) | Some m \<Rightarrow> Inl (PersistenceError m)) \<and>
         calls (snd (sendMessage env aid number text w)) =
           calls w @
           [Insert_log
              (outgoing_failed_entry aid number text (error_text (SessionNotReady st)))] \<and>
         sends (calls (snd (sendMessage env aid number text w))) = sends (calls w) \<and>
         message_logs (snd (sendMessage env aid number text w)) =
           message_logs w @
           (case insert_error env
                   (outgoing_failed_entry aid number text (error_text (SessionNotReady st))) of
              None \<Rightarrow>
                [outgoing_failed_entry aid number text (error_text (SessionNotReady st))]
            | Some m \<Rightarrow> []) \<and>
         status (outgoing_failed_entry aid number text (error_text (SessionNotReady st))) =
           Some Failed \<and>
         successes (message_logs (snd (sendMessage env aid number text w))) =
           successes (message_logs w)"
proof -
  have t: "sendMessage_try env aid number text w = (Inl (SessionNotReady st), w)"
    using assms by (simp add: sendMessage_try_def)
  show ?thesis
    by (simp add: sendMessage_refused [OF t] outgoing_failed_entry_fields sends_append
          successes_def split: option.split)
qed

theorem sendMessage_not_ready_witness:
  "fst (sendMessage env_up ''acc'' ''9876543210'' ''hello'' world_scanning) =
     Inl (SessionNotReady ''qr_ready'') \<and>
   sends (calls (snd (sendMessage env_up ''acc'' ''9876543210'' ''hello'' world_scanning))) = [] \<and>
   successes
     (message_logs (snd (sendMessage env_up ''acc'' ''9876543210'' ''hello'' world_scanning))) = []"
proof -
  have c: "clients world_scanning ''acc'' = Some \<lparr>pupPage = Some False\<rparr>"
    by (simp add: world_scanning_def)
  have s: "accountStatus world_scanning ''acc'' \<noteq> Some ''ready''"
    by (simp add: world_scanning_def)
  have st: "''qr_ready'' =
      (case accountStatus world_scanning ''acc'' of None \<Rightarrow> ''undefined'' | Some s \<Rightarrow> s)"
    by (simp add: world_scanning_def)
  show ?thesis
    using sendMessage_not_ready [OF c s st, of env_up "''9876543210''" "''hello''"]
    by (simp add: env_up_def world_scanning_def world_start_def successes_def)
qed

text \<open>
  Over a store that is down the error that reaches the caller is the store's, thrown by
  the write in the \<^verbatim>\<open>catch\<close> block, and not \<open>SessionNotReady\<close>.
\<close>

theorem sendMessage_not_ready_counterexample:
  "clients world_scanning ''acc'' = Some \<lparr>pupPage = Some False\<rparr> \<and>
   accountStatus world_scanning ''acc'' = Some ''qr_ready'' \<and>
   fst (sendMessage env_store_down ''acc'' ''9876543210'' ''hello'' world_scanning) =
     Inl (PersistenceError ''store unavailable'')"
  by (simp add: fixture_defs op_defs entry_defs)

section \<open>Properties of the ingestion\<close>

lemma dispatch_calls_append: "dispatch_calls (xs @ ys) = dispatch_calls xs @ dispatch_calls ys"
  by (induction xs rule: dispatch_calls.induct) simp_all

lemma deliver_grows:
  "\<exists>xs. message_logs (snd (deliver env aid md h w)) = message_logs w @ xs"
  by (simp add: deliver_def Let_def logMessage_def split: sum.split option.split)

lemma loop_grows:
  "\<exists>xs. message_logs (snd (sendToWebhooks_loop env aid md hs w)) = message_logs w @ xs"
proof (induction hs arbitrary: w)
  case Nil
  show ?case by simp
next
  case (Cons h hs)
  show ?case
  proof (cases "wh_is_active h")
    case False
    then show ?thesis using Cons.IH [of w] by simp
  next
    case True
    obtain r w' where d: "deliver env aid md h w = (r, w')" by (cases "deliver env aid md h w")
    obtain xs where xs: "message_logs w' = message_logs w @ xs"
      using deliver_grows [of env aid md h w] d by auto
    show ?thesis
    proof (cases r)
      case (Inl err)
      then show ?thesis using True d xs by simp
    next
      case (Inr u)
      obtain ys where "message_logs (snd (sendToWebhooks_loop env aid md hs w')) =
          message_logs w' @ ys"
        using Cons.IH [of w'] by auto
      then show ?thesis using True d xs Inr by simp
    qed
  qed
qed

lemma sendToWebhooks_grows:
  "\<exists>xs. message_logs (sendToWebhooks env aid md w) = message_logs w @ xs"
proof (cases "select_webhooks_error env aid")
  case None
  then show ?thesis
    using loop_grows [of env aid md "filter (\<lambda>h. wh_account_id h = aid) (webhooks w)"
        "w\<lparr>calls := calls w @ [Select_webhooks aid]\<rparr>"]
    by (simp add: sendToWebhooks_def getWebhooks_def)
next
  case (Some m)
  then show ?thesis by (simp add: sendToWebhooks_def getWebhooks_def)
qed

lemma deliver_calls:
  "\<exists>ys. calls (snd (deliver env aid md h w)) = calls w @ ys"
  by (simp add: deliver_def Let_def logMessage_def split: sum.split option.split)

lemma loop_calls:
  "\<exists>ys. calls (snd (sendToWebhooks_loop env aid md hs w)) = calls w @ ys"
proof (induction hs arbitrary: w)
  case Nil
  show ?case by simp
next
  case (Cons h hs)
  show ?case
  proof (cases "wh_is_active h")
    case False
    then show ?thesis using Cons.IH [of w] by simp
  next
    case True
    obtain r w' where d: "deliver env aid md h w = (r, w')" by (cases "deliver env aid md h w")
    obtain xs where xs: "calls w' = calls w @ xs"
      using deliver_calls [of env aid md h w] d by auto
    show ?thesis
    proof (cases r)
      case (Inl err)
      then show ?thesis using True d xs by simp
    next
      case (Inr u)
      obtain ys where "calls (snd (sendToWebhooks_loop env aid md hs w')) = calls w' @ ys"
        using Cons.IH [of w'] by auto
      then show ?thesis using True d xs Inr by simp
    qed
  qed
qed

lemma sendToWebhooks_calls:
  "\<exists>ys. calls (sendToWebhooks env aid md w) = calls w @ Select_webhooks aid # ys"
proof (cases "select_webhooks_error env aid")
  case None
  then show ?thesis
    using loop_calls [of env aid md "filter (\<lambda>h. wh_account_id h = aid) (webhooks w)"
        "w\<lparr>calls := calls w @ [Select_webhooks aid]\<rparr>"]
    by (simp add: sendToWebhooks_def getWebhooks_def)
next
  case (Some m)
  then show ?thesis by (simp add: sendToWebhooks_def getWebhooks_def)
qed

lemma incoming_failed_entry_fields:
  "account_id (incoming_failed_entry aid msg) = aid"
  "direction (incoming_failed_entry aid msg) = Incoming"
  "status (incoming_failed_entry aid msg) = Some Failed"
  "error_message (incoming_failed_entry aid msg) = Some msg"
  by (simp_all add: incoming_failed_entry_def blank_entry_def)

lemma webhook_entries_append:
  "webhook_entries (xs @ ys) = webhook_entries xs @ webhook_entries ys"
  by (simp add: webhook_entries_def)

lemma failed_ingestion_build:
  assumes "build_messageData aid m = Inl err"
  shows "calls (snd (handleIncomingMessage env aid m w)) =
           calls w @ [Insert_log (incoming_failed_entry aid (error_text err))]"
    and "dispatch_calls (calls (snd (handleIncomingMessage env aid m w))) =
           dispatch_calls (calls w)"
    and "webhook_entries (message_logs (snd (handleIncomingMessage env aid m w))) =
           webhook_entries (message_logs w)"
  by (simp_all add: handle_build_failed [OF assms] logMessage_calls logMessage_logs
        dispatch_calls_append webhook_entries_append webhook_entries_def
        incoming_failed_entry_fields split: option.split)

lemma failed_ingestion_persist:
  assumes "build_messageData aid m = Inr md" and "insert_error env md = Some msg"
  shows "calls (snd (handleIncomingMessage env aid m w)) =
           calls w @ [Insert_log md, Insert_log (incoming_failed_entry aid msg)]"
    and "dispatch_calls (calls (snd (handleIncomingMessage env aid m w))) =
           dispatch_calls (calls w)"
    and "webhook_entries (message_logs (snd (handleIncomingMessage env aid m w))) =
           webhook_entries (message_logs w)"
  by (simp_all add: handle_persist_failed [OF assms] logMessage_calls logMessage_logs
        dispatch_calls_append webhook_entries_append webhook_entries_def
        incoming_failed_entry_fields split: option.split)

lemma build_messageData_fields:
  assumes "build_messageData aid m = Inr md"
  shows "account_id md = aid" and "direction md = Incoming" and "status md = None"
  using assms
  by (auto simp add: build_messageData_def Let_def incoming_entry_def blank_entry_def
        split: sum.splits if_splits)

lemma persisted_ingestion:
  assumes "build_messageData aid m = Inr md" and "insert_error env md = None"
  shows "md \<in> set (message_logs (snd (handleIncomingMessage env aid m w)))"
    and "\<exists>ys. calls (snd (handleIncomingMessage env aid m w)) =
           calls w @ Insert_log md # Select_webhooks aid # ys"
    and "fst (handleIncomingMessage env aid m w) = Inr ()"
proof -
  let ?w1 = "w\<lparr>calls := calls w @ [Insert_log md], message_logs := message_logs w @ [md]\<rparr>"
  obtain xs where "message_logs (sendToWebhooks env aid md ?w1) = message_logs ?w1 @ xs"
    using sendToWebhooks_grows by blast
  then show "md \<in> set (message_logs (snd (handleIncomingMessage env aid m w)))"
    by (simp add: handle_persisted [OF assms])
  obtain ys where "calls (sendToWebhooks env aid md ?w1) = calls ?w1 @ Select_webhooks aid # ys"
    using sendToWebhooks_calls by blast
  then show "\<exists>ys. calls (snd (handleIncomingMessage env aid m w)) =
           calls w @ Insert_log md # Select_webhooks aid # ys"
    by (simp add: handle_persisted [OF assms])
  show "fst (handleIncomingMessage env aid m w) = Inr ()"
    by (simp add: handle_persisted [OF assms])
qed

text \<open>
  C9. When the message data cannot be built (\<^verbatim>\<open>getChat\<close> or \<^verbatim>\<open>downloadMedia\<close>
  rejects) or the store refuses the incoming entry, the last call of the ingestion is
  the insertion of an entry for that account with direction \<^verbatim>\<open>incoming\<close>, status
  \<^verbatim>\<open>failed\<close> and the message of the error; the webhooks are not listed, nothing
  is posted and no delivery entry is written. Conversely, a dispatch call is only made
  when the incoming entry was built and stored.
\<close>

theorem failed_ingestion_logged_not_dispatched:
  "(build_messageData aid m = Inl err \<longrightarrow>
      calls (snd (handleIncomingMessage env aid m w)) =
        calls w @ [Insert_log (incoming_failed_entry aid (error_text err))] \<and>
      dispatch_calls (calls (snd (handleIncomingMessage env aid m w))) =
        dispatch_calls (calls w) \<and>
      webhook_entries (message_logs (snd (handleIncomingMessage env aid m w))) =
        webhook_entries (message_logs w)) \<and>
   (build_messageData aid m = Inr md \<and> insert_error env md = Some msg \<longrightarrow>
      calls (snd (handleIncomingMessage env aid m w)) =
        calls w @ [Insert_log md, Insert_log (incoming_failed_entry aid msg)] \<and>
      dispatch_calls (calls (snd (handleIncomingMessage env aid m w))) =
        dispatch_calls (calls w) \<and>
      webhook_entries (message_logs (snd (handleIncomingMessage env aid m w))) =
        webhook_entries (message_logs w)) \<and>
   account_id (incoming_failed_entry aid txt) = aid \<and>
   direction (incoming_failed_entry aid txt) = Incoming \<and>
   status (incoming_failed_entry aid txt) = Some Failed \<and>
   error_message (incoming_failed_entry aid txt) = Some txt \<and>
   (dispatch_calls (calls (snd (handleIncomingMessage env aid m w))) \<noteq> dispatch_calls (calls w)
      \<longrightarrow> (\<exists>d. build_messageData aid m = Inr d \<and> insert_error env d = None \<and>
               d \<in> set (message_logs (snd (handleIncomingMessage env aid m w)))))"
proof -
  have last: "dispatch_calls (calls (snd (handleIncomingMessage env aid m w))) \<noteq>
        dispatch_calls (calls w) \<longrightarrow>
      (\<exists>d. build_messageData aid m = Inr d \<and> insert_error env d = None \<and>
           d \<in> set (message_logs (snd (handleIncomingMessage env aid m w))))"
  proof (cases "build_messageData aid m")
    case (Inl e)
    then show ?thesis using failed_ingestion_build(2) [OF Inl] by simp
  next
    case (Inr d)
    show ?thesis
    proof (cases "insert_error env d")
      case None
      then show ?thesis using Inr persisted_ingestion(1) [OF Inr None] by simp
    next
      case (Some x)
      then show ?thesis using failed_ingestion_persist(2) [OF Inr Some] by simp
    qed
  qed
  show ?thesis
    using last failed_ingestion_build [of aid m err env w]
      failed_ingestion_persist [of aid m md env msg w]
    by (simp add: incoming_failed_entry_fields)
qed

theorem failed_ingestion_logged_not_dispatched_witness:
  "build_messageData ''acc'' lost_message = Inl (TransportError ''Evaluation failed'') \<and>
   calls (snd (handleIncomingMessage env_up ''acc'' lost_message world_start)) =
     [Insert_log (incoming_failed_entry ''acc'' ''Evaluation failed'')] \<and>
   message_logs (snd (handleIncomingMessage env_up ''acc'' lost_message world_start)) =
     [incoming_failed_entry ''acc'' ''Evaluation failed'']"
proof -
  have b: "build_messageData ''acc'' lost_message = Inl (TransportError ''Evaluation failed'')"
    by (simp add: build_messageData_def lost_message_def hi_message_def)
  have "calls (snd (handleIncomingMessage env_up ''acc'' lost_message world_start)) =
     calls world_start @ [Insert_log (incoming_failed_entry ''acc'' ''Evaluation failed'')]"
    using b failed_ingestion_logged_not_dispatched
      [of "''acc''" lost_message "TransportError ''Evaluation failed''" env_up world_start]
    by simp
  then show ?thesis using b
    by (simp add: handle_build_failed [OF b] logMessage_logs)
       (simp add: world_start_def env_up_def)
qed

section \<open>Properties of the statistics\<close>

lemma status_partition:
  "length (filter (\<lambda>m. status m = Some Success) rows) +
   length (filter (\<lambda>m. status m = Some Failed) rows) +
   length (filter (\<lambda>m. status m = None) rows) = length rows"
proof (induction rows)
  case Nil
  show ?case by simp
next
  case (Cons e rows)
  show ?case
  proof (cases "status e")
    case None
    then show ?thesis using Cons.IH by simp
  next
    case (Some s)
    then show ?thesis using Cons.IH by (cases s) simp_all
  qed
qed

lemma direction_partition:
  "length (filter (\<lambda>m. direction m = Incoming) rows) +
   length (filter (\<lambda>m. direction m = Outgoing) rows) +
   length (filter (\<lambda>m. direction m = Webhook) rows) +
   length (filter (\<lambda>m. direction m = Webhook_incoming) rows) = length rows"
proof (induction rows)
  case Nil
  show ?case by simp
next
  case (Cons e rows)
  then show ?case by (cases "direction e") simp_all
qed

lemma stats_bound: "success (stats_of rows) + failed (stats_of rows) \<le> total (stats_of rows)"
  using status_partition [of rows] by (simp add: stats_of_def)

lemma stats_strict:
  assumes "e \<in> set rows" and "status e = None"
  shows "success (stats_of rows) + failed (stats_of rows) < total (stats_of rows)"
proof -
  have "e \<in> set (filter (\<lambda>m. status m = None) rows)"
    using assms by simp
  then have pos: "0 < length (filter (\<lambda>m. status m = None) rows)"
    by (rule length_pos_if_in_set)
  have "success (stats_of rows) + failed (stats_of rows) +
          length (filter (\<lambda>m. status m = None) rows) = total (stats_of rows)"
    using status_partition [of rows] by (simp add: stats_of_def)
  with pos show ?thesis by linarith
qed

lemma stats_total:
  "total (stats_of rows) =
     incoming (stats_of rows) + outgoing (stats_of rows) +
     length (filter (\<lambda>m. direction m = Webhook) rows) +
     length (filter (\<lambda>m. direction m = Webhook_incoming) rows)"
  using direction_partition [of rows] by (simp add: stats_of_def)

lemma stats_of_snoc:
  assumes "direction e = Incoming" and "status e = None"
  shows "stats_of (rows @ [e]) =
           (stats_of rows)\<lparr>total := total (stats_of rows) + 1,
                            incoming := incoming (stats_of rows) + 1\<rparr>"
  using assms by (simp add: stats_of_def)

lemma getMessageStats_rows:
  "select_logs_error env aid = None \<Longrightarrow>
     fst (getMessageStats env aid w) =
       Inr (stats_of (filter (\<lambda>m. account_id m = aid) (message_logs w)))"
  by (simp add: getMessageStats_def Let_def)

text \<open>
  C10. For every list of rows, \<open>success + failed \<le> total\<close>, and \<open>total\<close> is the
  sum of the incoming, the outgoing and the two kinds of webhook entries;
  \<^verbatim>\<open>getMessageStats\<close> computes these numbers on the rows of the account. A message
  that is ingested successfully is stored without a status, with direction
  \<^verbatim>\<open>incoming\<close>: appended to any rows it adds one to \<open>total\<close> and to
  \<open>incoming\<close> and nothing to \<open>success\<close> or \<open>failed\<close>, and after its
  ingestion the inequality is strict for its account, as it is for all rows that hold an
  entry without a status.
\<close>

theorem ingested_messages_in_stats:
  "success (stats_of rows) + failed (stats_of rows) \<le> total (stats_of rows) \<and>
   total (stats_of rows) =
     incoming (stats_of rows) + outgoing (stats_of rows) +
     length (filter (\<lambda>m. direction m = Webhook) rows) +
     length (filter (\<lambda>m. direction m = Webhook_incoming) rows) \<and>
   (e \<in> set rows \<and> status e = None \<longrightarrow>
      success (stats_of rows) + failed (stats_of rows) < total (stats_of rows)) \<and>
   (select_logs_error env aid = None \<longrightarrow>
      fst (getMessageStats env aid w') =
        Inr (stats_of (filter (\<lambda>m. account_id m = aid) (message_logs w')))) \<and>
   (build_messageData aid m = Inr md \<and> insert_error env md = None \<longrightarrow>
      status md = None \<and> direction md = Incoming \<and> account_id md = aid \<and>
      md \<in> set (filter (\<lambda>m. account_id m = aid)
                  (message_logs (snd (handleIncomingMessage env aid m w)))) \<and>
      stats_of (rows @ [md]) =
        (stats_of rows)\<lparr>total := total (stats_of rows) + 1,
                         incoming := incoming (stats_of rows) + 1\<rparr> \<and>
      success (stats_of (filter (\<lambda>m. account_id m = aid)
                 (message_logs (snd (handleIncomingMessage env aid m w))))) +
      failed (stats_of (filter (\<lambda>m. account_id m = aid)
                 (message_logs (snd (handleIncomingMessage env aid m w)))))
      < total (stats_of (filter (\<lambda>m. account_id m = aid)
                 (message_logs (snd (handleIncomingMessage env aid m w))))))"
proof -
  have ingest: "build_messageData aid m = Inr md \<and> insert_error env md = None \<longrightarrow>
      status md = None \<and> direction md = Incoming \<and> account_id md = aid \<and>
      md \<in> set (filter (\<lambda>m. account_id m = aid)
                  (message_logs (snd (handleIncomingMessage env aid m w)))) \<and>
      stats_of (rows @ [md]) =
        (stats_of rows)\<lparr>total := total (stats_of rows) + 1,
                         incoming := incoming (stats_of rows) + 1\<rparr> \<and>
      success (stats_of (filter (\<lambda>m. account_id m = aid)
                 (message_logs (snd (handleIncomingMessage env aid m w))))) +
      failed (stats_of (filter (\<lambda>m. account_id m = aid)
                 (message_logs (snd (handleIncomingMessage env aid m w)))))
      < total (stats_of (filter (\<lambda>m. account_id m = aid)
                 (message_logs (snd (handleIncomingMessage env aid m w)))))"
  proof (intro impI, elim conjE)
    assume b: "build_messageData aid m = Inr md" and p: "insert_error env md = None"
    note f = build_messageData_fields [OF b]
    have mem: "md \<in> set (filter (\<lambda>m. account_id m = aid)
                  (message_logs (snd (handleIncomingMessage env aid m w))))"
      using persisted_ingestion(1) [OF b p, of w] f(1) by simp
    show "status md = None \<and> direction md = Incoming \<and> account_id md = aid \<and>
      md \<in> set (filter (\<lambda>m. account_id m = aid)
                  (message_logs (snd (handleIncomingMessage env aid m w)))) \<and>
      stats_of (rows @ [md]) =
        (stats_of rows)\<lparr>total := total (stats_of rows) + 1,
                         incoming := incoming (stats_of rows) + 1\<rparr> \<and>
      success (stats_of (filter (\<lambda>m. account_id m = aid)
                 (message_logs (snd (handleIncomingMessage env aid m w))))) +
      failed (stats_of (filter (\<lambda>m. account_id m = aid)
                 (message_logs (snd (handleIncomingMessage env aid m w)))))
      < total (stats_of (filter (\<lambda>m. account_id m = aid)
                 (message_logs (snd (handleIncomingMessage env aid m w)))))"
      using f mem stats_of_snoc [OF f(2) f(3), of rows] stats_strict [OF mem f(3)]
      by blast
  qed
  show ?thesis
    using ingest stats_bound [of rows] stats_total [of rows] stats_strict [of e rows]
      getMessageStats_rows [of env aid w']
    by blast
qed

theorem ingested_messages_in_stats_witness:
  "fst (getMessageStats env_up ''acc''
          (snd (handleIncomingMessage env_up ''acc'' hi_message world_start))) =
     Inr \<lparr>total = 3, incoming = 1, outgoing = 0, success = 2, failed = 0\<rparr>"
proof -
  have b: "build_messageData ''acc'' hi_message = Inr hi_data"
    by (simp add: build_messageData_def hi_message_def hi_data_def)
  have p: "insert_error env_up hi_data = None" by (simp add: env_up_def)
  have s: "select_logs_error env_up ''acc'' = None" by (simp add: env_up_def)
  have acc: "\<forall>h msg. insert_error env_up (webhook_failed_entry ''acc'' h msg) = None"
    by (simp add: env_up_def)
  have sel: "select_webhooks_error env_up ''acc'' = None" by (simp add: env_up_def)
  have logs: "message_logs (snd (handleIncomingMessage env_up ''acc'' hi_message world_start)) =
      [hi_data, webhook_success_entry ''acc'' hook1 200, webhook_success_entry ''acc'' hook2 200]"
    by (simp add: handle_persisted [OF b p] sendToWebhooks_accepted [OF acc sel])
       (simp add: active_webhooks_def recorded_outcome_def fixture_defs secret_header_def
          webhook_success_entry_def blank_entry_def)
  have "fst (getMessageStats env_up ''acc''
          (snd (handleIncomingMessage env_up ''acc'' hi_message world_start))) =
        Inr (stats_of (filter (\<lambda>m. account_id m = ''acc'')
          (message_logs (snd (handleIncomingMessage env_up ''acc'' hi_message world_start)))))"
    using s ingested_messages_in_stats [where env = env_up and aid = "''acc''"
        and w' = "snd (handleIncomingMessage env_up ''acc'' hi_message world_start)"]
    by blast
  then show ?thesis
    by (simp only: logs)
       (simp add: stats_of_def hi_data_def incoming_entry_def webhook_success_entry_def
          blank_entry_def)
qed

section \<open>Properties of the reconnection at start\<close>

















lemma error_messages_kept:
  "map acc_error_message
     (map (\<lambda>r. if acc_id r = i
               then apply_updates \<lparr>upd_status = s, upd_error_message = None\<rparr> r else r) rows) =
   map acc_error_message rows"
  by (induction rows) (simp_all add: apply_updates_def)

lemma reconnectAccount_error_messages:
  "map acc_error_message (accounts (snd (reconnectAccount env a w))) =
     map acc_error_message (accounts w)"
  by (simp add: reconnectAccount_def updateAccount_def Let_def apply_updates_def
        split: sum.split option.split)

text \<open>
  C7. No call of \<^verbatim>\<open>reconnectAccount\<close> changes the \<^verbatim>\<open>error_message\<close> of any row:
  the update it sends carries the status only. For the first account, persisted as
  \<^verbatim>\<open>ready\<close>, over a transport that cannot start and a store that works, the call
  returns, the row's status becomes \<^verbatim>\<open>disconnected\<close>, the cached status becomes
  \<^verbatim>\<open>disconnected\<close>, and the row's \<^verbatim>\<open>error_message\<close> stays empty: the reason of
  the failure is not persisted.
\<close>

theorem reconnect_failure_reason_not_stored:
  "map acc_error_message (accounts (snd (reconnectAccount env a w))) =
     map acc_error_message (accounts w) \<and>
   client_initialize env_no_transport (acc_id account1) = Inl ''browser failed to launch'' \<and>
   fst (reconnectAccount env_no_transport account1 world_start) = Inr () \<and>
   map acc_status (accounts (snd (reconnectAccount env_no_transport account1 world_start))) =
     [''disconnected'', ''qr_ready'', ''auth_failed''] \<and>
   map acc_error_message
       (accounts (snd (reconnectAccount env_no_transport account1 world_start))) =
     [None, None, Some ''bad session''] \<and>
   accountStatus (snd (reconnectAccount env_no_transport account1 world_start)) ''acc'' =
     Some ''disconnected''"
proof -
  have "client_initialize env_no_transport (acc_id account1) = Inl ''browser failed to launch'' \<and>
   fst (reconnectAccount env_no_transport account1 world_start) = Inr () \<and>
   map acc_status (accounts (snd (reconnectAccount env_no_transport account1 world_start))) =
     [''disconnected'', ''qr_ready'', ''auth_failed''] \<and>
   map acc_error_message
       (accounts (snd (reconnectAccount env_no_transport account1 world_start))) =
     [None, None, Some ''bad session''] \<and>
   accountStatus (snd (reconnectAccount env_no_transport account1 world_start)) ''acc'' =
     Some ''disconnected''"
    by (simp add: fixture_defs op_defs apply_updates_def)
  then show ?thesis using reconnectAccount_error_messages [of env a w] by simp
qed

end
